theory Spec2Isabelle
  imports Main "HOL-Library.Sublist"
begin

section \<open>The mock resource monitor of \<^verbatim>\<open>sdk/nodejs/runtime/mocks.ts\<close>\<close>

text \<open>
  The class \<^verbatim>\<open>MockMonitor\<close> keeps a map \<^verbatim>\<open>resources\<close> from resource names (URNs) to
  entries \<^verbatim>\<open>{urn, id, state}\<close> and serves five protocol calls. Every handler wraps its body
  in \<^verbatim>\<open>try { ... } catch (err) { callback(err, undefined) }\<close> and calls \<^verbatim>\<open>callback\<close> once.

  The embedding passes the map explicitly: a handler takes the map and the request and
  returns the map as the call leaves it together with the arguments of the one callback,
  \<open>Inl err\<close> for \<^verbatim>\<open>callback(err, undefined)\<close> and \<open>Inr resp\<close> for \<^verbatim>\<open>callback(null, resp)\<close>.
  The callback itself only receives: it is taken not to throw. Calls are handled one after
  the other, as the map is passed from one to the next.
\<close>

subsection \<open>Values\<close>

text \<open>
  JavaScript values as far as the monitor looks into them. Property payloads are opaque to
  the monitor, which never computes with a number; a protobuf \<^verbatim>\<open>Struct\<close> message is a JavaScript object as well, so requests,
  registry states and responses carry the same type. An object is the list of its own
  properties, looked up by the first match.
\<close>

datatype jsvalue =
    JUndefined
  | JNull
  | JBool bool
  | JNum int
  | JStr string
  | JArr "jsvalue list"
  | JObj "(string \<times> jsvalue) list"

text \<open>
  What a handler can catch: its own \<^verbatim>\<open>new Error(`unknown resource ${...}`)\<close> (carrying the
  value that was looked up), the \<^verbatim>\<open>TypeError\<close> of a method call on \<^verbatim>\<open>undefined\<close>, and
  whatever a collaborator (the serializer, the wire encoder, the user's mocks) throws.
\<close>

datatype 'x error =
    UnknownResource jsvalue
  | TypeError
  | Raised 'x

subsection \<open>String primitives\<close>

text \<open>
  \<^verbatim>\<open>String.prototype.split(sep)\<close> with a string separator: the string is scanned from the
  left, every occurrence of the separator found that way ends a component and the scan
  goes on behind it; the last component is what remains. With the empty separator the
  string is cut into its single characters. The result of a non-empty separator is never
  the empty array. Separators here are the ASCII strings \<^verbatim>\<open>"::"\<close> and \<^verbatim>\<open>"$"\<close>, whose bytes do
  not occur inside a multi-byte character, so scanning bytes finds the same cuts.
\<close>

fun js_split_scan :: "'a list \<Rightarrow> 'a list \<Rightarrow> 'a list \<Rightarrow> 'a list list" where
  "js_split_scan sep acc [] = [rev acc]"
| "js_split_scan sep acc (c # s) =
     (if sep \<noteq> [] \<and> prefix sep (c # s)
      then rev acc # js_split_scan sep [] (drop (length sep) (c # s))
      else js_split_scan sep (c # acc) s)"

definition js_split :: "'a list \<Rightarrow> 'a list \<Rightarrow> 'a list list" where
  "js_split s sep = (if sep = [] then map (\<lambda>c. [c]) s else js_split_scan sep [] s)"

text \<open>\<^verbatim>\<open>Array.prototype.pop()\<close>, for its value: the last element, \<^verbatim>\<open>undefined\<close> on the empty array.\<close>

definition js_pop :: "'a list \<Rightarrow> 'a option" where
  "js_pop xs = (if xs = [] then None else Some (last xs))"

text \<open>\<^verbatim>\<open>Array.prototype.join(sep)\<close> on an array of strings.\<close>

fun js_join :: "string \<Rightarrow> string list \<Rightarrow> string" where
  "js_join sep [] = []"
| "js_join sep [x] = x"
| "js_join sep (x # y # ys) = x @ sep @ js_join sep (y # ys)"

text \<open>String concatenation \<^verbatim>\<open>v + "..."\<close> turns an \<^verbatim>\<open>undefined\<close> operand into \<^verbatim>\<open>"undefined"\<close>.\<close>

definition js_string_of :: "string option \<Rightarrow> string" where
  "js_string_of v = (case v of None \<Rightarrow> ''undefined'' | Some s \<Rightarrow> s)"

subsection \<open>Collaborators\<close>

text \<open>
  The monitor's collaborators are not part of the class and are taken as parameters:
  \<^verbatim>\<open>getStack()\<close> and \<^verbatim>\<open>getProject()\<close> of \<^verbatim>\<open>./settings\<close>, \<^verbatim>\<open>deserializeProperties\<close> and
  \<^verbatim>\<open>serializeProperties("", _)\<close> of \<^verbatim>\<open>./rpc\<close>, \<^verbatim>\<open>Struct.fromJavaScript\<close> of the protobuf
  library, and the two methods of the user's \<^verbatim>\<open>Mocks\<close>. Each of the functions may throw
  (an awaited promise that rejects throws at the \<^verbatim>\<open>await\<close>): \<open>Inl x\<close>.
\<close>

record mock_result =
  result_id :: "string option"
  result_state :: jsvalue

record 'x env =
  getStack :: string
  getProject :: string
  deserializeProperties :: "jsvalue \<Rightarrow> 'x + jsvalue"
  serializeProperties :: "jsvalue \<Rightarrow> 'x + jsvalue"
  fromJavaScript :: "jsvalue \<Rightarrow> 'x + jsvalue"
  call :: "string \<Rightarrow> jsvalue \<Rightarrow> string \<Rightarrow> 'x + jsvalue"
  newResource :: "string \<Rightarrow> string \<Rightarrow> jsvalue \<Rightarrow> string \<Rightarrow> string \<Rightarrow> bool \<Rightarrow> 'x + mock_result"

subsection \<open>Name synthesis\<close>

text \<open>
  \<^verbatim>\<open>newUrn\<close>, lines 57 to 64. The first function is the conditional of lines 58 to 62: the
  value of the variable \<^verbatim>\<open>type\<close> after it. \<^verbatim>\<open>if (parent)\<close> is taken by every non-empty string.
  \<^verbatim>\<open>parent.split("::")[2]\<close> is \<^verbatim>\<open>undefined\<close> when the array has fewer than three elements, and
  then \<^verbatim>\<open>qualifiedType.split\<close> throws a \<^verbatim>\<open>TypeError\<close>.
\<close>

definition newUrn_type :: "string \<Rightarrow> string \<Rightarrow> 'x error + string" where
  "newUrn_type parent type =
     (if parent \<noteq> [] then
        (let parts = js_split parent ''::'' in
         if length parts \<le> 2 then Inl TypeError
         else
           (let qualifiedType = parts ! 2;
                parentType = js_pop (js_split qualifiedType ''$'')
            in Inr (js_string_of parentType @ ''$'' @ type)))
      else Inr type)"

definition newUrn :: "('x, 'm) env_scheme \<Rightarrow> string \<Rightarrow> string \<Rightarrow> string \<Rightarrow> 'x error + string" where
  "newUrn env parent type name =
     (case newUrn_type parent type of
        Inl err \<Rightarrow> Inl err
      | Inr type' \<Rightarrow> Inr (''urn:pulumi:'' @ js_join ''::'' [getStack env, getProject env, type', name]))"

subsection \<open>The registry\<close>

text \<open>
  \<^verbatim>\<open>readonly resources = new Map<string, { urn: string, id: string | undefined, state: any }>()\<close>.
  Every entry is a fresh object literal that only the map refers to, so the assignment to
  \<^verbatim>\<open>registeredResource.state\<close> in \<^verbatim>\<open>registerResourceOutputs\<close> is an update of the map at
  that key.
\<close>

record registered_resource =
  urn :: string
  id' :: "string option"
  state :: jsvalue

type_synonym registry = "string \<rightharpoonup> registered_resource"

text \<open>\<^verbatim>\<open>this.resources.get(k)\<close> for any value \<^verbatim>\<open>k\<close>: only a string is a key of the map.\<close>

definition resources_get :: "registry \<Rightarrow> jsvalue \<Rightarrow> registered_resource option" where
  "resources_get resources k = (case k of JStr s \<Rightarrow> resources s | _ \<Rightarrow> None)"

text \<open>
  The property read \<^verbatim>\<open>inputs.urn\<close>: a \<^verbatim>\<open>TypeError\<close> on \<^verbatim>\<open>undefined\<close> and \<^verbatim>\<open>null\<close>, the property
  of an object, \<^verbatim>\<open>undefined\<close> where there is none.
\<close>

definition inputs_urn :: "jsvalue \<Rightarrow> 'x error + jsvalue" where
  "inputs_urn inputs =
     (case inputs of
        JUndefined \<Rightarrow> Inl TypeError
      | JNull \<Rightarrow> Inl TypeError
      | JObj props \<Rightarrow> Inr (case map_of props ''urn'' of None \<Rightarrow> JUndefined | Some v \<Rightarrow> v)
      | _ \<Rightarrow> Inr JUndefined)"

text \<open>An entry as the object \<^verbatim>\<open>{ urn, id, state }\<close> that \<^verbatim>\<open>invoke\<close> hands to the wire encoder.\<close>

definition js_of_registered :: "registered_resource \<Rightarrow> jsvalue" where
  "js_of_registered r =
     JObj [(''urn'', JStr (urn r)),
           (''id'', case id' r of None \<Rightarrow> JUndefined | Some i \<Rightarrow> JStr i),
           (''state'', state r)]"

subsection \<open>Requests and responses\<close>

record request =
  getProvider :: string

record invoke_request = request +
  getTok :: string
  getArgs :: jsvalue

record resource_request = request +
  getType :: string
  getName :: string
  getParent :: string
  getCustom :: bool

record read_resource_request = resource_request +
  getProperties :: jsvalue
  getId :: string

record register_resource_request = resource_request +
  getObject :: jsvalue
  getImportid :: string

record outputs_request =
  getUrn :: string
  getOutputs :: jsvalue

record invoke_response =
  resp_return :: jsvalue

record urn_response =
  resp_urn :: string

record read_resource_response = urn_response +
  resp_properties :: jsvalue

record register_resource_response = urn_response +
  resp_id :: "string option"
  resp_object :: jsvalue

subsection \<open>The handlers\<close>

text \<open>
  \<^verbatim>\<open>invoke\<close>, lines 66 to 89. The arguments are deserialized before the token is compared.
  The reserved token is answered from the registry: the whole entry goes to the encoder
  (lines 76 to 78, the first definition), which may throw like any other step of the body.
\<close>

definition getResource_response ::
  "('x, 'm) env_scheme \<Rightarrow> registered_resource \<Rightarrow> 'x error + invoke_response" where
  "getResource_response env registeredResource =
     (case fromJavaScript env (js_of_registered registeredResource) of
        Inl x \<Rightarrow> Inl (Raised x)
      | Inr w \<Rightarrow> Inr \<lparr>resp_return = w\<rparr>)"

definition invoke ::
  "('x, 'm) env_scheme \<Rightarrow> registry \<Rightarrow> invoke_request \<Rightarrow> registry \<times> ('x error + invoke_response)" where
  "invoke env resources req =
     (let tok = getTok req in
      case deserializeProperties env (getArgs req) of
        Inl x \<Rightarrow> (resources, Inl (Raised x))
      | Inr inputs \<Rightarrow>
          if tok = ''pulumi:pulumi:getResource'' then
            (case inputs_urn inputs of
               Inl err \<Rightarrow> (resources, Inl err)
             | Inr k \<Rightarrow>
                 (case resources_get resources k of
                    None \<Rightarrow> (resources, Inl (UnknownResource k))
                  | Some registeredResource \<Rightarrow>
                      (resources, getResource_response env registeredResource)))
          else
            (case call env tok inputs (getProvider req) of
               Inl x \<Rightarrow> (resources, Inl (Raised x))
             | Inr result \<Rightarrow>
                 (case serializeProperties env result of
                    Inl x \<Rightarrow> (resources, Inl (Raised x))
                  | Inr serialized \<Rightarrow>
                      (case fromJavaScript env serialized of
                         Inl x \<Rightarrow> (resources, Inl (Raised x))
                       | Inr w \<Rightarrow> (resources, Inr \<lparr>resp_return = w\<rparr>)))))"

text \<open>
  \<^verbatim>\<open>readResource\<close>, lines 91 to 113. The order of the source: the properties are
  deserialized, \<^verbatim>\<open>newResource\<close> is called, the name is synthesized, the state is serialized,
  the entry is stored, and only then the response is encoded.
\<close>

definition readResource ::
  "('x, 'm) env_scheme \<Rightarrow> registry \<Rightarrow> read_resource_request
     \<Rightarrow> registry \<times> ('x error + read_resource_response)" where
  "readResource env resources req =
     (case deserializeProperties env (getProperties req) of
        Inl x \<Rightarrow> (resources, Inl (Raised x))
      | Inr inputs \<Rightarrow>
     (case newResource env (getType req) (getName req) inputs (getProvider req) (getId req)
             (getCustom req) of
        Inl x \<Rightarrow> (resources, Inl (Raised x))
      | Inr result \<Rightarrow>
     (case newUrn env (getParent req) (getType req) (getName req) of
        Inl err \<Rightarrow> (resources, Inl err)
      | Inr u \<Rightarrow>
     (case serializeProperties env (result_state result) of
        Inl x \<Rightarrow> (resources, Inl (Raised x))
      | Inr serializedState \<Rightarrow>
     (let resources' =
            resources(u \<mapsto> \<lparr>urn = u, id' = result_id result, state = serializedState\<rparr>)
      in case fromJavaScript env serializedState of
           Inl x \<Rightarrow> (resources', Inl (Raised x))
         | Inr w \<Rightarrow> (resources', Inr \<lparr>resp_urn = u, resp_properties = w\<rparr>))))))"

text \<open>\<^verbatim>\<open>registerResource\<close>, lines 115 to 138: the same steps on \<^verbatim>\<open>getObject\<close> and \<^verbatim>\<open>getImportid\<close>.\<close>

definition registerResource ::
  "('x, 'm) env_scheme \<Rightarrow> registry \<Rightarrow> register_resource_request
     \<Rightarrow> registry \<times> ('x error + register_resource_response)" where
  "registerResource env resources req =
     (case deserializeProperties env (getObject req) of
        Inl x \<Rightarrow> (resources, Inl (Raised x))
      | Inr inputs \<Rightarrow>
     (case newResource env (getType req) (getName req) inputs (getProvider req) (getImportid req)
             (getCustom req) of
        Inl x \<Rightarrow> (resources, Inl (Raised x))
      | Inr result \<Rightarrow>
     (case newUrn env (getParent req) (getType req) (getName req) of
        Inl err \<Rightarrow> (resources, Inl err)
      | Inr u \<Rightarrow>
     (case serializeProperties env (result_state result) of
        Inl x \<Rightarrow> (resources, Inl (Raised x))
      | Inr serializedState \<Rightarrow>
     (let resources' =
            resources(u \<mapsto> \<lparr>urn = u, id' = result_id result, state = serializedState\<rparr>)
      in case fromJavaScript env serializedState of
           Inl x \<Rightarrow> (resources', Inl (Raised x))
         | Inr w \<Rightarrow>
             (resources',
              Inr \<lparr>resp_urn = u, resp_id = result_id result, resp_object = w\<rparr>))))))"

text \<open>
  \<^verbatim>\<open>registerResourceOutputs\<close>, lines 140 to 152. The response is the empty object.
\<close>

definition registerResourceOutputs ::
  "registry \<Rightarrow> outputs_request \<Rightarrow> registry \<times> ('x error + unit)" where
  "registerResourceOutputs resources req =
     (case resources (getUrn req) of
        None \<Rightarrow> (resources, Inl (UnknownResource (JStr (getUrn req))))
      | Some registeredResource \<Rightarrow>
          (resources(getUrn req \<mapsto> registeredResource\<lparr>state := getOutputs req\<rparr>), Inr ()))"

text \<open>\<^verbatim>\<open>supportsFeature\<close>, lines 154 to 158: the value of \<^verbatim>\<open>getHassupport()\<close>.\<close>

definition supportsFeature :: "registry \<Rightarrow> 'r \<Rightarrow> registry \<times> ('x error + bool)" where
  "supportsFeature resources req = (resources, Inr True)"

subsection \<open>The name as the specification words it\<close>

text \<open>
  The specification describes name synthesis without the array operations of the source:
  from the third component of the parent's name, "take the suffix after the last \<^verbatim>\<open>"$"\<close>"
  (the whole component when it has no \<^verbatim>\<open>"$"\<close>), compose the effective type as that suffix,
  \<^verbatim>\<open>"$"\<close> and the type token; with no parent the effective type is the type token; the name
  is \<^verbatim>\<open>"urn:pulumi:" + stack + "::" + project + "::" + effectiveType + "::" + logicalName\<close>.
  These definitions follow those words; the theorems compare \<open>newUrn\<close> with them.
\<close>

definition suffix_after_last :: "'a \<Rightarrow> 'a list \<Rightarrow> 'a list" where
  "suffix_after_last c s = rev (takeWhile (\<lambda>x. x \<noteq> c) (rev s))"

definition effective_type :: "string \<Rightarrow> string \<Rightarrow> string" where
  "effective_type parent type =
     (if parent = [] then type
      else suffix_after_last (CHR ''$'') (js_split parent ''::'' ! 2) @ ''$'' @ type)"

definition spec_name :: "string \<Rightarrow> string \<Rightarrow> string \<Rightarrow> string \<Rightarrow> string" where
  "spec_name stack project effectiveType logicalName =
     ''urn:pulumi:'' @ stack @ ''::'' @ project @ ''::'' @ effectiveType @ ''::'' @ logicalName"

text \<open>A parent name that does not have three components: the case in which \<open>newUrn\<close> throws.\<close>

definition malformed_parent :: "string \<Rightarrow> bool" where
  "malformed_parent parent \<longleftrightarrow> parent \<noteq> [] \<and> length (js_split parent ''::'') < 3"

subsection \<open>A concrete run\<close>

text \<open>
  The scenario of the specification: the defaults \<^verbatim>\<open>"stack"\<close> and \<^verbatim>\<open>"project"\<close> of \<^verbatim>\<open>setMocks\<close>,
  mocks whose \<^verbatim>\<open>newResource\<close> answers \<^verbatim>\<open>{id: "bucket-1", state: {foo: "bar", arn: "arn:..."}}\<close>,
  and collaborators that hand every value through unchanged.
\<close>

definition bucket_state :: jsvalue where
  "bucket_state = JObj [(''foo'', JStr ''bar''), (''arn'', JStr ''arn:...'')]"

definition example_env :: "string env" where
  "example_env =
     \<lparr>getStack = ''stack'', getProject = ''project'',
      deserializeProperties = Inr, serializeProperties = Inr, fromJavaScript = Inr,
      call = (\<lambda>tok args provider. Inr args),
      newResource = (\<lambda>type name inputs provider ident custom.
         Inr \<lparr>result_id = Some ''bucket-1'', result_state = bucket_state\<rparr>)\<rparr>"

definition bucket_request :: register_resource_request where
  "bucket_request =
     \<lparr>getProvider = [], getType = ''pkg:mod:Bucket'', getName = ''my-bucket'', getParent = [],
      getCustom = True, getObject = JObj [(''foo'', JStr ''bar'')], getImportid = []\<rparr>"

definition bucket_urn :: string where
  "bucket_urn = ''urn:pulumi:stack::project::pkg:mod:Bucket::my-bucket''"

definition getResource_request :: "string \<Rightarrow> invoke_request" where
  "getResource_request u =
     \<lparr>getProvider = [], getTok = ''pulumi:pulumi:getResource'', getArgs = JObj [(''urn'', JStr u)]\<rparr>"

text \<open>
  Further inputs of the examples: the registry after the bucket was registered, the same
  request under a parent that is no resource name, and mocks whose \<^verbatim>\<open>newResource\<close> throws.
\<close>

definition bucket_registry :: registry where
  "bucket_registry =
     Map.empty(bucket_urn \<mapsto> \<lparr>urn = bucket_urn, id' = Some ''bucket-1'', state = bucket_state\<rparr>)"

definition orphan_request :: register_resource_request where
  "orphan_request = bucket_request\<lparr>getParent := ''not-a-urn''\<rparr>"


text \<open>A \<^verbatim>\<open>readResource\<close> request for an object whose declared parent is the bucket.\<close>

definition object_request :: read_resource_request where
  "object_request =
     \<lparr>getProvider = [], getType = ''pkg:mod:Object'', getName = ''my-object'',
      getParent = bucket_urn, getCustom = True, getProperties = JObj [], getId = ''object-1''\<rparr>"

definition object_urn :: string where
  "object_urn = ''urn:pulumi:stack::project::pkg:mod:Bucket$pkg:mod:Object::my-object''"

section \<open>Splitting and the innermost type\<close>

lemma js_split_scan_nonempty: "js_split_scan sep acc s \<noteq> []"
  by (induction sep acc s rule: js_split_scan.induct) auto

lemma last_js_split_scan_char:
  "last (js_split_scan [c] acc s) =
     (if c \<in> set s then suffix_after_last c s else rev acc @ s)"
  by (induction s arbitrary: acc)
     (auto simp: js_split_scan_nonempty takeWhile_append suffix_after_last_def)

lemma suffix_after_last_absent: "c \<notin> set s \<Longrightarrow> suffix_after_last c s = s"
proof -
  assume "c \<notin> set s"
  then have h: "takeWhile (\<lambda>x. x \<noteq> c) (rev s) = rev s"
    by auto
  show ?thesis
    unfolding suffix_after_last_def h by simp
qed

lemma suffix_after_last_append: "c \<notin> set B \<Longrightarrow> suffix_after_last c (A @ c # B) = B"
  by (simp add: suffix_after_last_def takeWhile_append)

text \<open>
  \<^verbatim>\<open>s.split("$").pop()\<close> is never \<^verbatim>\<open>undefined\<close>, and it is the suffix of \<^verbatim>\<open>s\<close> behind its last
  \<^verbatim>\<open>"$"\<close>: the array operations of the source compute what the specification words.
\<close>

lemma js_pop_split_char: "js_pop (js_split s [c]) = Some (suffix_after_last c s)"
  by (simp add: js_pop_def js_split_def js_split_scan_nonempty last_js_split_scan_char
      suffix_after_last_absent)

lemma js_split_empty: "js_split [] (c # sep) = [[]]"
  by (simp add: js_split_def)

lemma malformed_parent_empty: "\<not> malformed_parent []"
  by (simp add: malformed_parent_def)

lemma newUrn_type_eq:
  "newUrn_type parent ty =
     (if malformed_parent parent then Inl TypeError else Inr (effective_type parent ty))"
  by (auto simp: newUrn_type_def malformed_parent_def effective_type_def Let_def
      js_pop_split_char js_string_of_def)

lemma newUrn_eq:
  "newUrn env parent ty name =
     (if malformed_parent parent then Inl TypeError
      else Inr (spec_name (getStack env) (getProject env) (effective_type parent ty) name))"
  by (simp add: newUrn_def newUrn_type_eq spec_name_def)

lemma append_sep_inject:
  assumes "c \<notin> set n" and "c \<notin> set n'" and "xs @ c # n = xs' @ c # n'"
  shows "xs = xs' \<and> n = n'"
proof -
  have "suffix_after_last c (xs @ c # n) = n" "suffix_after_last c (xs' @ c # n') = n'"
    using assms(1,2) by (simp_all add: suffix_after_last_append)
  with assms(3) have "n = n'"
    by simp
  with assms(3) show ?thesis
    by simp
qed

lemma spec_name_inject:
  assumes "CHR '':'' \<notin> set n" and "CHR '':'' \<notin> set n'"
  shows "spec_name s p t n = spec_name s p t' n' \<longleftrightarrow> t = t' \<and> n = n'"
proof
  assume "spec_name s p t n = spec_name s p t' n'"
  then have "(t @ '':'') @ CHR '':'' # n = (t' @ '':'') @ CHR '':'' # n'"
    by (simp add: spec_name_def)
  from append_sep_inject [OF assms this] show "t = t' \<and> n = n'"
    by simp
next
  assume "t = t' \<and> n = n'"
  then show "spec_name s p t n = spec_name s p t' n'"
    by simp
qed

section \<open>What the handlers do, step by step\<close>

lemma readResource_success:
  assumes "snd (readResource env reg rq) = Inr r"
  shows "\<exists>inputs result st w.
           deserializeProperties env (getProperties rq) = Inr inputs
         \<and> newResource env (getType rq) (getName rq) inputs (getProvider rq) (getId rq)
              (getCustom rq) = Inr result
         \<and> \<not> malformed_parent (getParent rq)
         \<and> serializeProperties env (result_state result) = Inr st
         \<and> fromJavaScript env st = Inr w
         \<and> resp_urn r = spec_name (getStack env) (getProject env)
              (effective_type (getParent rq) (getType rq)) (getName rq)
         \<and> resp_properties r = w
         \<and> fst (readResource env reg rq) =
              reg(resp_urn r \<mapsto> \<lparr>urn = resp_urn r, id' = result_id result, state = st\<rparr>)"
  using assms
  by (auto simp: readResource_def newUrn_eq Let_def split: sum.splits if_splits)

lemma registerResource_success:
  assumes "snd (registerResource env reg gq) = Inr r"
  shows "\<exists>inputs result st w.
           deserializeProperties env (getObject gq) = Inr inputs
         \<and> newResource env (getType gq) (getName gq) inputs (getProvider gq) (getImportid gq)
              (getCustom gq) = Inr result
         \<and> \<not> malformed_parent (getParent gq)
         \<and> serializeProperties env (result_state result) = Inr st
         \<and> fromJavaScript env st = Inr w
         \<and> resp_urn r = spec_name (getStack env) (getProject env)
              (effective_type (getParent gq) (getType gq)) (getName gq)
         \<and> resp_id r = result_id result
         \<and> resp_object r = w
         \<and> fst (registerResource env reg gq) =
              reg(resp_urn r \<mapsto> \<lparr>urn = resp_urn r, id' = result_id result, state = st\<rparr>)"
  using assms
  by (auto simp: registerResource_def newUrn_eq Let_def split: sum.splits if_splits)

lemma readResource_run:
  assumes "deserializeProperties env (getProperties rq) = Inr inputs"
    and "newResource env (getType rq) (getName rq) inputs (getProvider rq) (getId rq)
           (getCustom rq) = Inr result"
    and "\<not> malformed_parent (getParent rq)"
    and "serializeProperties env (result_state result) = Inr st"
    and "fromJavaScript env st = Inr w"
  shows "readResource env reg rq =
           (let u = spec_name (getStack env) (getProject env)
                      (effective_type (getParent rq) (getType rq)) (getName rq)
            in (reg(u \<mapsto> \<lparr>urn = u, id' = result_id result, state = st\<rparr>),
                Inr \<lparr>resp_urn = u, resp_properties = w\<rparr>))"
  using assms by (simp add: readResource_def newUrn_eq Let_def)

lemma registerResource_run:
  assumes "deserializeProperties env (getObject gq) = Inr inputs"
    and "newResource env (getType gq) (getName gq) inputs (getProvider gq) (getImportid gq)
           (getCustom gq) = Inr result"
    and "\<not> malformed_parent (getParent gq)"
    and "serializeProperties env (result_state result) = Inr st"
    and "fromJavaScript env st = Inr w"
  shows "registerResource env reg gq =
           (let u = spec_name (getStack env) (getProject env)
                      (effective_type (getParent gq) (getType gq)) (getName gq)
            in (reg(u \<mapsto> \<lparr>urn = u, id' = result_id result, state = st\<rparr>),
                Inr \<lparr>resp_urn = u, resp_id = result_id result, resp_object = w\<rparr>))"
  using assms by (simp add: registerResource_def newUrn_eq Let_def)

lemma readResource_malformed:
  assumes "malformed_parent (getParent rq)"
  shows "\<exists>e. readResource env reg rq = (reg, Inl e)"
  using assms by (simp add: readResource_def newUrn_eq split: sum.splits)

lemma registerResource_malformed:
  assumes "malformed_parent (getParent gq)"
  shows "\<exists>e. registerResource env reg gq = (reg, Inl e)"
  using assms by (simp add: registerResource_def newUrn_eq split: sum.splits)

lemma getResource_response_known: "getResource_response env e \<noteq> Inl (UnknownResource k)"
  by (simp add: getResource_response_def split: sum.splits)

lemma invoke_getResource:
  assumes "getTok req = ''pulumi:pulumi:getResource''"
    and "deserializeProperties env (getArgs req) = Inr inputs"
    and "inputs_urn inputs = (Inr k :: 'x error + jsvalue)"
  shows "invoke (env :: ('x, 'm) env_scheme) reg req =
           (reg, case resources_get reg k of
                   None \<Rightarrow> Inl (UnknownResource k)
                 | Some e \<Rightarrow> getResource_response env e)"
  using assms by (simp add: invoke_def Let_def split: option.splits)

lemma invoke_after_commit:
  assumes "getTok req = ''pulumi:pulumi:getResource''"
    and "deserializeProperties env (getArgs req) = Inr inputs"
    and "inputs_urn inputs = (Inr (JStr u) :: 'x error + jsvalue)"
  shows "invoke (env :: ('x, 'm) env_scheme) (reg(u \<mapsto> e)) req
           = (reg(u \<mapsto> e), getResource_response env e)"
  using invoke_getResource [OF assms, of "reg(u \<mapsto> e)"] by (simp add: resources_get_def)

text \<open>The concrete run, evaluated.\<close>

lemma example_register:
  "registerResource example_env Map.empty bucket_request =
     (Map.empty(bucket_urn \<mapsto> \<lparr>urn = bucket_urn, id' = Some ''bucket-1'', state = bucket_state\<rparr>),
      Inr \<lparr>resp_urn = bucket_urn, resp_id = Some ''bucket-1'', resp_object = bucket_state\<rparr>)"
  by (simp add: registerResource_def example_env_def bucket_request_def bucket_urn_def
      newUrn_def newUrn_type_def)

lemma example_object_steps:
  "deserializeProperties example_env (getProperties object_request) = Inr (JObj [])
   \<and> newResource example_env (getType object_request) (getName object_request) (JObj [])
         (getProvider object_request) (getId object_request) (getCustom object_request)
       = Inr \<lparr>result_id = Some ''bucket-1'', result_state = bucket_state\<rparr>
   \<and> serializeProperties example_env
         (result_state \<lparr>result_id = Some ''bucket-1'', result_state = bucket_state\<rparr>)
       = Inr bucket_state
   \<and> fromJavaScript example_env bucket_state = Inr bucket_state"
  by (simp add: example_env_def object_request_def)

lemma example_object_parent:
  "\<not> malformed_parent (getParent object_request)
   \<and> spec_name (getStack example_env) (getProject example_env)
         (effective_type (getParent object_request) (getType object_request))
         (getName object_request) = object_urn"
  by (simp add: object_request_def bucket_urn_def object_urn_def malformed_parent_def
      js_split_def effective_type_def suffix_after_last_def spec_name_def example_env_def)

lemma example_invoke:
  "invoke example_env reg (getResource_request u) =
     (reg, case reg u of None \<Rightarrow> Inl (UnknownResource (JStr u))
           | Some e \<Rightarrow> Inr \<lparr>resp_return = js_of_registered e\<rparr>)"
  by (simp add: invoke_def getResource_request_def example_env_def inputs_urn_def
      resources_get_def getResource_response_def split: option.splits)

section \<open>Name synthesis\<close>

text \<open>
  Claim C2. When the third \<^verbatim>\<open>"::"\<close>-component of the declared parent name, its qualified type
  segment, is a chain \<open>A$B\<close> whose last link \<open>B\<close> has no \<^verbatim>\<open>"$"\<close>, a registration of type \<open>C\<close>
  is named with the type segment \<open>B$C\<close>: only what stands behind the last \<^verbatim>\<open>"$"\<close> of the parent's
  segment is inherited, whatever the chain \<open>A\<close> before it.
\<close>

theorem newUrn_inherits_innermost_parent_type:
  assumes "2 < length (js_split parent ''::'')"
    and "js_split parent ''::'' ! 2 = A @ ''$'' @ B"
    and "CHR ''$'' \<notin> set B"
  shows "newUrn env parent C name =
           Inr (''urn:pulumi:'' @ getStack env @ ''::'' @ getProject env @ ''::'' @
                (B @ ''$'' @ C) @ ''::'' @ name)"
proof -
  have "parent \<noteq> []"
    using assms(1) by (auto simp: js_split_empty)
  moreover have "\<not> malformed_parent parent"
    using assms(1) by (simp add: malformed_parent_def)
  moreover have "suffix_after_last (CHR ''$'') (js_split parent ''::'' ! 2) = B"
    using assms(2,3) suffix_after_last_append [of "CHR ''$''" B A] by simp
  ultimately show ?thesis
    by (simp add: newUrn_eq effective_type_def spec_name_def)
qed

theorem newUrn_inherits_innermost_parent_type_witness:
  "2 < length (js_split ''urn:pulumi:stack::project::A$B::p'' ''::'')
   \<and> js_split ''urn:pulumi:stack::project::A$B::p'' ''::'' ! 2 = ''A'' @ ''$'' @ ''B''
   \<and> CHR ''$'' \<notin> set ''B''
   \<and> newUrn example_env ''urn:pulumi:stack::project::A$B::p'' ''C'' ''c'' =
       Inr ''urn:pulumi:stack::project::B$C::c''"
proof -
  have s: "js_split ''urn:pulumi:stack::project::A$B::p'' ''::'' =
             [''urn:pulumi:stack'', ''project'', ''A$B'', ''p'']"
    by (simp add: js_split_def)
  have h1: "2 < length (js_split ''urn:pulumi:stack::project::A$B::p'' ''::'')"
    by (simp add: s)
  have h2: "js_split ''urn:pulumi:stack::project::A$B::p'' ''::'' ! 2 = ''A'' @ ''$'' @ ''B''"
    by (simp add: s)
  have h3: "CHR ''$'' \<notin> set ''B''"
    by simp
  show ?thesis
    using h1 h2 h3
      newUrn_inherits_innermost_parent_type [OF h1 h2 h3, of example_env "''C''" "''c''"]
    by (simp add: example_env_def)
qed

text \<open>
  Claim C3. \<open>newUrn\<close> throws on a parent that does not have three components and otherwise
  returns \<^verbatim>\<open>"urn:pulumi:"\<close> followed by the stack name, the project name, the effective type
  and the logical name joined with \<^verbatim>\<open>"::"\<close>; with the empty parent string it always returns,
  and the effective type is the type token itself. A \<^verbatim>\<open>readResource\<close> or \<^verbatim>\<open>registerResource\<close>
  call whose steps all go through stores its entry under that name and answers with it; and
  whatever call succeeds, the name in its response is that name.
\<close>

theorem synthesized_name_format:
  "newUrn env parent ty name =
     (if malformed_parent parent then Inl TypeError
      else Inr (''urn:pulumi:'' @ getStack env @ ''::'' @ getProject env @ ''::'' @
                effective_type parent ty @ ''::'' @ name))
   \<and> newUrn env [] ty name =
       Inr (''urn:pulumi:'' @ getStack env @ ''::'' @ getProject env @ ''::'' @ ty @ ''::'' @ name)
   \<and> effective_type [] ty = ty
   \<and> (deserializeProperties env (getProperties rq) = Inr inputs
        \<and> newResource env (getType rq) (getName rq) inputs (getProvider rq) (getId rq)
             (getCustom rq) = Inr (result :: mock_result)
        \<and> \<not> malformed_parent (getParent rq)
        \<and> serializeProperties env (result_state result) = Inr st
        \<and> fromJavaScript env st = Inr w
      \<longrightarrow> readResource env reg rq =
            (let u = spec_name (getStack env) (getProject env)
                       (effective_type (getParent rq) (getType rq)) (getName rq)
             in (reg(u \<mapsto> \<lparr>urn = u, id' = result_id result, state = st\<rparr>),
                 Inr \<lparr>resp_urn = u, resp_properties = w\<rparr>)))
   \<and> (deserializeProperties env (getObject gq) = Inr inputs'
        \<and> newResource env (getType gq) (getName gq) inputs' (getProvider gq) (getImportid gq)
             (getCustom gq) = Inr (result' :: mock_result)
        \<and> \<not> malformed_parent (getParent gq)
        \<and> serializeProperties env (result_state result') = Inr st'
        \<and> fromJavaScript env st' = Inr w'
      \<longrightarrow> registerResource env reg gq =
            (let u = spec_name (getStack env) (getProject env)
                       (effective_type (getParent gq) (getType gq)) (getName gq)
             in (reg(u \<mapsto> \<lparr>urn = u, id' = result_id result', state = st'\<rparr>),
                 Inr \<lparr>resp_urn = u, resp_id = result_id result', resp_object = w'\<rparr>)))
   \<and> (\<forall>r. snd (readResource env reg rq) = Inr r \<longrightarrow>
          resp_urn r = spec_name (getStack env) (getProject env)
            (effective_type (getParent rq) (getType rq)) (getName rq))
   \<and> (\<forall>r. snd (registerResource env reg gq) = Inr r \<longrightarrow>
          resp_urn r = spec_name (getStack env) (getProject env)
            (effective_type (getParent gq) (getType gq)) (getName gq))"
  (is "?total \<and> ?orphan \<and> ?token \<and> ?read \<and> ?register \<and> ?read_only \<and> ?register_only")
proof -
  have total: ?total
    by (simp add: newUrn_eq spec_name_def)
  have orphan: ?orphan
    by (simp add: newUrn_eq malformed_parent_empty effective_type_def spec_name_def)
  have token: ?token
    by (simp add: effective_type_def)
  have "read": ?read
    using readResource_run [of env rq inputs result st w reg] by blast
  have register: ?register
    using registerResource_run [of env gq inputs' result' st' w' reg] by blast
  have read_only: ?read_only
  proof (intro allI impI)
    fix r assume "snd (readResource env reg rq) = Inr r"
    from readResource_success [OF this]
    show "resp_urn r = spec_name (getStack env) (getProject env)
            (effective_type (getParent rq) (getType rq)) (getName rq)"
      by blast
  qed
  have register_only: ?register_only
  proof (intro allI impI)
    fix r assume "snd (registerResource env reg gq) = Inr r"
    from registerResource_success [OF this]
    show "resp_urn r = spec_name (getStack env) (getProject env)
            (effective_type (getParent gq) (getType gq)) (getName gq)"
      by blast
  qed
  from total orphan token "read" register read_only register_only show ?thesis
    by (intro conjI)
qed

theorem synthesized_name_format_witness:
  "deserializeProperties example_env (getProperties object_request) = Inr (JObj [])
   \<and> newResource example_env (getType object_request) (getName object_request) (JObj [])
         (getProvider object_request) (getId object_request) (getCustom object_request)
       = Inr \<lparr>result_id = Some ''bucket-1'', result_state = bucket_state\<rparr>
   \<and> \<not> malformed_parent (getParent object_request)
   \<and> serializeProperties example_env
         (result_state \<lparr>result_id = Some ''bucket-1'', result_state = bucket_state\<rparr>)
       = Inr bucket_state
   \<and> fromJavaScript example_env bucket_state = Inr bucket_state
   \<and> readResource example_env bucket_registry object_request =
       (bucket_registry(object_urn \<mapsto>
          \<lparr>urn = object_urn, id' = Some ''bucket-1'', state = bucket_state\<rparr>),
        Inr \<lparr>resp_urn = object_urn, resp_properties = bucket_state\<rparr>)
   \<and> object_urn = ''urn:pulumi:stack::project::pkg:mod:Bucket$pkg:mod:Object::my-object''
   \<and> snd (registerResource example_env Map.empty bucket_request) =
       Inr \<lparr>resp_urn = bucket_urn, resp_id = Some ''bucket-1'', resp_object = bucket_state\<rparr>
   \<and> bucket_urn = ''urn:pulumi:stack::project::pkg:mod:Bucket::my-bucket''"
proof -
  let ?result = "\<lparr>result_id = Some ''bucket-1'', result_state = bucket_state\<rparr>"
  let ?g = "\<lparr>resp_urn = bucket_urn, resp_id = Some ''bucket-1'', resp_object = bucket_state\<rparr>"
  note steps = example_object_steps
  note parent = example_object_parent
  note t = synthesized_name_format [where env = example_env and reg = bucket_registry
      and rq = object_request and inputs = "JObj []" and result = ?result
      and st = bucket_state and w = bucket_state and gq = bucket_request
      and ty = "[]" and name = "[]" and parent = "[]"]
  from t steps parent
  have "readResource example_env bucket_registry object_request =
       (let u = spec_name (getStack example_env) (getProject example_env)
                  (effective_type (getParent object_request) (getType object_request))
                  (getName object_request)
        in (bucket_registry(u \<mapsto> \<lparr>urn = u, id' = result_id ?result, state = bucket_state\<rparr>),
            Inr \<lparr>resp_urn = u, resp_properties = bucket_state\<rparr>))"
    by blast
  then have r: "readResource example_env bucket_registry object_request =
       (bucket_registry(object_urn \<mapsto>
          \<lparr>urn = object_urn, id' = Some ''bucket-1'', state = bucket_state\<rparr>),
        Inr \<lparr>resp_urn = object_urn, resp_properties = bucket_state\<rparr>)"
    using parent by (simp add: Let_def)
  have h: "snd (registerResource example_env Map.empty bucket_request) = Inr ?g"
    by (simp add: example_register)
  show ?thesis
    using steps parent r h by (simp add: object_urn_def bucket_urn_def)
qed

text \<open>
  Claim C9, as amended. Name synthesis is a function of the stack, the project, the parent
  name, the type token and the logical name alone. Two names synthesized under the same
  configuration, for logical names without a colon, are equal exactly when the effective
  types are equal and the logical names are equal: the parent enters the name through its
  innermost type only.
\<close>

theorem newUrn_deterministic_and_injective_in_effective_type:
  "(getStack env' = getStack env \<and> getProject env' = getProject env
      \<longrightarrow> newUrn env' p t n = newUrn env p t n)
   \<and> (newUrn env p t n = Inr u \<and> newUrn env p' t' n' = Inr u'
        \<and> CHR '':'' \<notin> set n \<and> CHR '':'' \<notin> set n'
      \<longrightarrow> (u = u' \<longleftrightarrow> effective_type p t = effective_type p' t' \<and> n = n'))"
proof (intro conjI impI)
  assume "getStack env' = getStack env \<and> getProject env' = getProject env"
  then show "newUrn env' p t n = newUrn env p t n"
    by (simp add: newUrn_eq)
next
  assume a: "newUrn env p t n = Inr u \<and> newUrn env p' t' n' = Inr u'
        \<and> CHR '':'' \<notin> set n \<and> CHR '':'' \<notin> set n'"
  then have "u = spec_name (getStack env) (getProject env) (effective_type p t) n"
    and "u' = spec_name (getStack env) (getProject env) (effective_type p' t') n'"
    by (simp_all add: newUrn_eq split: if_splits)
  with a show "u = u' \<longleftrightarrow> effective_type p t = effective_type p' t' \<and> n = n'"
    by (simp add: spec_name_inject)
qed

theorem newUrn_deterministic_and_injective_in_effective_type_witness:
  "newUrn example_env ''urn:pulumi:stack::project::A$B::p'' ''C'' ''c''
       = Inr ''urn:pulumi:stack::project::B$C::c''
   \<and> newUrn example_env ''urn:pulumi:stack::project::X$B::q'' ''C'' ''c''
       = Inr ''urn:pulumi:stack::project::B$C::c''
   \<and> CHR '':'' \<notin> set ''c''
   \<and> effective_type ''urn:pulumi:stack::project::A$B::p'' ''C''
       = effective_type ''urn:pulumi:stack::project::X$B::q'' ''C''"
proof -
  have a: "newUrn example_env ''urn:pulumi:stack::project::A$B::p'' ''C'' ''c''
       = Inr ''urn:pulumi:stack::project::B$C::c''"
    by (simp add: newUrn_def newUrn_type_def js_split_def js_pop_def js_string_of_def
      example_env_def)
  have b: "newUrn example_env ''urn:pulumi:stack::project::X$B::q'' ''C'' ''c''
       = Inr ''urn:pulumi:stack::project::B$C::c''"
    by (simp add: newUrn_def newUrn_type_def js_split_def js_pop_def js_string_of_def
      example_env_def)
  have c: "CHR '':'' \<notin> set ''c''"
    by simp
  from newUrn_deterministic_and_injective_in_effective_type
    [where env = example_env and p = "''urn:pulumi:stack::project::A$B::p''" and t = "''C''"
      and n = "''c''" and p' = "''urn:pulumi:stack::project::X$B::q''" and t' = "''C''"
      and n' = "''c''" and u = "''urn:pulumi:stack::project::B$C::c''"
      and u' = "''urn:pulumi:stack::project::B$C::c''", THEN conjunct2] a b c
  have "effective_type ''urn:pulumi:stack::project::A$B::p'' ''C''
       = effective_type ''urn:pulumi:stack::project::X$B::q'' ''C''"
    by blast
  with a b c show ?thesis
    by blast
qed

text \<open>
  The claim as first stated, that distinct triples of parent, type and logical name yield
  distinct names, fails: two parents with different chains and the same innermost type \<open>B\<close>
  give the children \<open>C\<close> named \<open>c\<close> the same name; and a logical name with \<^verbatim>\<open>"::"\<close> in it can
  collide with a type token that has it.
\<close>

theorem newUrn_collision_counterexample:
  "(''urn:pulumi:stack::project::A$B::p'', ''C'', ''c'')
      \<noteq> (''urn:pulumi:stack::project::X$B::q'', ''C'', ''c'')
   \<and> newUrn example_env ''urn:pulumi:stack::project::A$B::p'' ''C'' ''c''
       = Inr ''urn:pulumi:stack::project::B$C::c''
   \<and> newUrn example_env ''urn:pulumi:stack::project::X$B::q'' ''C'' ''c''
       = Inr ''urn:pulumi:stack::project::B$C::c''
   \<and> ([], ''a'', ''b::c'') \<noteq> ([], ''a::b'', ''c'')
   \<and> newUrn example_env [] ''a'' ''b::c'' = newUrn example_env [] ''a::b'' ''c''"
  by (simp add: newUrn_def newUrn_type_def js_split_def js_pop_def js_string_of_def
      example_env_def)

section \<open>Failures\<close>

text \<open>
  Claim C10. A non-empty parent with fewer than three \<^verbatim>\<open>"::"\<close>-components makes \<open>newUrn\<close>
  throw a \<^verbatim>\<open>TypeError\<close>. Both handlers then call the callback with an error and leave the
  registry as it was; the error is that \<^verbatim>\<open>TypeError\<close> whenever the two steps before name
  synthesis, deserialization and \<^verbatim>\<open>newResource\<close>, went through. A handler is a total function
  whose result is what the callback received: nothing escapes it.
\<close>

theorem malformed_parent_fails_in_callback:
  assumes "p \<noteq> []" and "length (js_split p ''::'') < 3"
  shows "newUrn env p ty name = Inl TypeError
    \<and> (getParent rq = p \<longrightarrow>
         (\<exists>e. readResource env reg rq = (reg, Inl e))
       \<and> (\<forall>inputs result.
             deserializeProperties env (getProperties rq) = Inr inputs
           \<and> newResource env (getType rq) (getName rq) inputs (getProvider rq) (getId rq)
                (getCustom rq) = Inr result
           \<longrightarrow> readResource env reg rq = (reg, Inl TypeError)))
    \<and> (getParent gq = p \<longrightarrow>
         (\<exists>e. registerResource env reg gq = (reg, Inl e))
       \<and> (\<forall>inputs result.
             deserializeProperties env (getObject gq) = Inr inputs
           \<and> newResource env (getType gq) (getName gq) inputs (getProvider gq) (getImportid gq)
                (getCustom gq) = Inr result
           \<longrightarrow> registerResource env reg gq = (reg, Inl TypeError)))"
proof -
  have m: "malformed_parent p"
    using assms by (simp add: malformed_parent_def)
  have "newUrn env p ty name = Inl TypeError"
    using m by (simp add: newUrn_eq)
  moreover have "getParent rq = p \<longrightarrow> (\<exists>e. readResource env reg rq = (reg, Inl e))"
    using m readResource_malformed by blast
  moreover have "getParent gq = p \<longrightarrow> (\<exists>e. registerResource env reg gq = (reg, Inl e))"
    using m registerResource_malformed by blast
  moreover have "getParent rq = p \<longrightarrow> (\<forall>inputs result.
             deserializeProperties env (getProperties rq) = Inr inputs
           \<and> newResource env (getType rq) (getName rq) inputs (getProvider rq) (getId rq)
                (getCustom rq) = Inr result
           \<longrightarrow> readResource env reg rq = (reg, Inl TypeError))"
    using m by (simp add: readResource_def newUrn_eq)
  moreover have "getParent gq = p \<longrightarrow> (\<forall>inputs result.
             deserializeProperties env (getObject gq) = Inr inputs
           \<and> newResource env (getType gq) (getName gq) inputs (getProvider gq) (getImportid gq)
                (getCustom gq) = Inr result
           \<longrightarrow> registerResource env reg gq = (reg, Inl TypeError))"
    using m by (simp add: registerResource_def newUrn_eq)
  ultimately show ?thesis
    by blast
qed

theorem malformed_parent_fails_in_callback_witness:
  "''not-a-urn'' \<noteq> [] \<and> length (js_split ''not-a-urn'' ''::'') < 3
   \<and> registerResource example_env Map.empty orphan_request = (Map.empty, Inl TypeError)"
proof -
  have h1: "''not-a-urn'' \<noteq> []"
    by simp
  have h2: "length (js_split ''not-a-urn'' ''::'') < 3"
    by (simp add: js_split_def)
  have p: "getParent orphan_request = ''not-a-urn''"
    by (simp add: orphan_request_def)
  have d: "deserializeProperties example_env (getObject orphan_request) = Inr (getObject orphan_request)"
    by (simp add: example_env_def)
  have n: "newResource example_env (getType orphan_request) (getName orphan_request)
             (getObject orphan_request) (getProvider orphan_request) (getImportid orphan_request)
             (getCustom orphan_request)
           = Inr \<lparr>result_id = Some ''bucket-1'', result_state = bucket_state\<rparr>"
    by (simp add: example_env_def)
  from malformed_parent_fails_in_callback [OF h1 h2, where gq = orphan_request
      and env = example_env and reg = Map.empty]
  have "registerResource example_env Map.empty orphan_request = (Map.empty, Inl TypeError)"
    using p d n by blast
  then show ?thesis
    using h1 h2 by blast
qed



text \<open>
  The four steps above are all that comes before \<^verbatim>\<open>this.resources.set\<close>. The encoding of the
  response comes after it: a call that fails and has changed the registry failed in
  \<^verbatim>\<open>Struct.fromJavaScript\<close>, on a state that \<^verbatim>\<open>serializeProperties\<close> had produced.
\<close>

lemma readResource_failure_after_commit:
  assumes "snd (readResource env reg rq) = Inl e" and "fst (readResource env reg rq) \<noteq> reg"
  shows "\<exists>inputs result st x.
           deserializeProperties env (getProperties rq) = Inr inputs
         \<and> newResource env (getType rq) (getName rq) inputs (getProvider rq) (getId rq)
              (getCustom rq) = Inr result
         \<and> serializeProperties env (result_state result) = Inr st
         \<and> fromJavaScript env st = Inl x \<and> e = Raised x"
  using assms
  by (auto simp: readResource_def Let_def split: sum.splits)

lemma registerResource_failure_after_commit:
  assumes "snd (registerResource env reg gq) = Inl e"
    and "fst (registerResource env reg gq) \<noteq> reg"
  shows "\<exists>inputs result st x.
           deserializeProperties env (getObject gq) = Inr inputs
         \<and> newResource env (getType gq) (getName gq) inputs (getProvider gq) (getImportid gq)
              (getCustom gq) = Inr result
         \<and> serializeProperties env (result_state result) = Inr st
         \<and> fromJavaScript env st = Inl x \<and> e = Raised x"
  using assms
  by (auto simp: registerResource_def Let_def split: sum.splits)



section \<open>Lookup and update of registered resources\<close>

text \<open>
  Claim C1, as amended. When the arguments of an \<^verbatim>\<open>invoke\<close> with the token
  \<^verbatim>\<open>"pulumi:pulumi:getResource"\<close> deserialize to inputs whose \<^verbatim>\<open>urn\<close> is the string \<open>u\<close>: if the
  registry holds an entry for \<open>u\<close>, the call leaves the registry alone and answers with what
  the wire encoder makes of the whole entry \<^verbatim>\<open>{urn, id, state}\<close>, whose \<^verbatim>\<open>state\<close> is the state
  last stored for \<open>u\<close> (the encoding, or the error the encoder throws); if it holds none, the
  call fails with the unknown-resource error.
\<close>

theorem invoke_getResource_returns_entry:
  assumes "getTok req = ''pulumi:pulumi:getResource''"
    and "deserializeProperties env (getArgs req) = Inr inputs"
    and "inputs_urn inputs = (Inr (JStr u) :: 'x error + jsvalue)"
  shows "(\<forall>e. reg u = Some e \<longrightarrow> invoke (env :: ('x, 'm) env_scheme) reg req = (reg, getResource_response env e))
       \<and> (reg u = None \<longrightarrow> invoke env reg req = (reg, Inl (UnknownResource (JStr u))))"
  using invoke_getResource [OF assms, of reg] by (simp add: resources_get_def)

theorem invoke_getResource_returns_entry_witness:
  "getTok (getResource_request bucket_urn) = ''pulumi:pulumi:getResource''
   \<and> deserializeProperties example_env (getArgs (getResource_request bucket_urn))
       = Inr (JObj [(''urn'', JStr bucket_urn)])
   \<and> inputs_urn (JObj [(''urn'', JStr bucket_urn)]) = (Inr (JStr bucket_urn) :: string error + jsvalue)
   \<and> invoke example_env (fst (registerResource example_env Map.empty bucket_request))
        (getResource_request bucket_urn)
       = (fst (registerResource example_env Map.empty bucket_request),
          Inr \<lparr>resp_return = JObj [(''urn'', JStr bucket_urn), (''id'', JStr ''bucket-1''),
                                   (''state'', bucket_state)]\<rparr>)
   \<and> invoke example_env Map.empty (getResource_request bucket_urn)
       = (Map.empty, Inl (UnknownResource (JStr bucket_urn)))"
proof -
  have h1: "getTok (getResource_request bucket_urn) = ''pulumi:pulumi:getResource''"
    by (simp add: getResource_request_def)
  have h2: "deserializeProperties example_env (getArgs (getResource_request bucket_urn))
       = Inr (JObj [(''urn'', JStr bucket_urn)])"
    by (simp add: getResource_request_def example_env_def)
  have h3: "inputs_urn (JObj [(''urn'', JStr bucket_urn)]) = (Inr (JStr bucket_urn) :: string error + jsvalue)"
    by (simp add: inputs_urn_def)
  note t = invoke_getResource_returns_entry [OF h1 h2 h3]
  have a: "invoke example_env (fst (registerResource example_env Map.empty bucket_request))
        (getResource_request bucket_urn)
       = (fst (registerResource example_env Map.empty bucket_request),
          Inr \<lparr>resp_return = JObj [(''urn'', JStr bucket_urn), (''id'', JStr ''bucket-1''),
                                   (''state'', bucket_state)]\<rparr>)"
  proof -
    have "getResource_response example_env
            \<lparr>urn = bucket_urn, id' = Some ''bucket-1'', state = bucket_state\<rparr>
          = Inr \<lparr>resp_return = JObj [(''urn'', JStr bucket_urn), (''id'', JStr ''bucket-1''),
                                   (''state'', bucket_state)]\<rparr>"
      by (simp add: getResource_response_def js_of_registered_def example_env_def)
    then show ?thesis
      using t [of "fst (registerResource example_env Map.empty bucket_request)"]
      by (simp add: example_register)
  qed
  have b: "invoke example_env Map.empty (getResource_request bucket_urn)
       = (Map.empty, Inl (UnknownResource (JStr bucket_urn)))"
    using t [of Map.empty] by simp
  show ?thesis
    using h1 h2 h3 a b by blast
qed

text \<open>
  The claim as first stated, that the state mapping itself is returned, fails in the concrete
  scenario: after the bucket is registered, the lookup returns the object with the three
  properties \<^verbatim>\<open>urn\<close>, \<^verbatim>\<open>id\<close> and \<^verbatim>\<open>state\<close>, not \<^verbatim>\<open>{foo: "bar", arn: "arn:..."}\<close>.
\<close>

theorem invoke_getResource_state_counterexample:
  "snd (invoke example_env (fst (registerResource example_env Map.empty bucket_request))
          (getResource_request bucket_urn))
     = Inr \<lparr>resp_return = JObj [(''urn'', JStr bucket_urn), (''id'', JStr ''bucket-1''),
                                 (''state'', bucket_state)]\<rparr>
   \<and> snd (invoke example_env (fst (registerResource example_env Map.empty bucket_request))
          (getResource_request bucket_urn))
     \<noteq> Inr \<lparr>resp_return = bucket_state\<rparr>"
  by (simp add: example_register example_invoke js_of_registered_def bucket_state_def)

text \<open>
  Claim C8. A \<^verbatim>\<open>readResource\<close> and a \<^verbatim>\<open>registerResource\<close> call whose steps all go through
  succeeds and stores, under the name of its response, the entry with the mock's id and the
  serialized state. After every successful call of either kind the registry holds an entry
  under the name of the response, with that name in its \<^verbatim>\<open>urn\<close> field, and a \<^verbatim>\<open>getResource\<close>
  invoke for that name answers from this entry: it never fails with the unknown-resource
  error, and it succeeds whenever the wire encoder accepts the entry.
\<close>

theorem registered_resource_is_found:
  "(deserializeProperties env (getProperties rq) = Inr inputs
        \<and> newResource env (getType rq) (getName rq) inputs (getProvider rq)
             (getId rq) (getCustom rq) = Inr (result :: mock_result)
        \<and> \<not> malformed_parent (getParent rq)
        \<and> serializeProperties env (result_state result) = Inr st
        \<and> fromJavaScript env st = Inr w
      \<longrightarrow> (\<exists>r. snd (readResource env reg rq) = Inr r
             \<and> fst (readResource env reg rq) (resp_urn r)
                 = Some \<lparr>urn = resp_urn r, id' = result_id result, state = st\<rparr>))
 \<and> (deserializeProperties env (getObject gq) = Inr inputs'
        \<and> newResource env (getType gq) (getName gq) inputs' (getProvider gq)
             (getImportid gq) (getCustom gq) = Inr (result' :: mock_result)
        \<and> \<not> malformed_parent (getParent gq)
        \<and> serializeProperties env (result_state result') = Inr st'
        \<and> fromJavaScript env st' = Inr w'
      \<longrightarrow> (\<exists>r. snd (registerResource env reg gq) = Inr r
             \<and> fst (registerResource env reg gq) (resp_urn r)
                 = Some \<lparr>urn = resp_urn r, id' = result_id result', state = st'\<rparr>))
 \<and> (snd (readResource env reg rq) = Inr r \<longrightarrow>
      (\<exists>e. fst (readResource env reg rq) (resp_urn r) = Some e \<and> urn e = resp_urn r
         \<and> (\<forall>req inputs.
               getTok req = ''pulumi:pulumi:getResource''
             \<and> deserializeProperties env (getArgs req) = Inr inputs
             \<and> inputs_urn inputs = (Inr (JStr (resp_urn r)) :: 'x error + jsvalue)
             \<longrightarrow> invoke env (fst (readResource env reg rq)) req
                   = (fst (readResource env reg rq), getResource_response env e)
               \<and> (\<forall>k. snd (invoke env (fst (readResource env reg rq)) req)
                         \<noteq> Inl (UnknownResource k))
               \<and> (\<forall>w. fromJavaScript env (js_of_registered e) = Inr w
                    \<longrightarrow> snd (invoke env (fst (readResource env reg rq)) req)
                          = Inr \<lparr>resp_return = w\<rparr>))))
 \<and> (snd (registerResource (env :: ('x, 'm) env_scheme) reg gq) = Inr g \<longrightarrow>
      (\<exists>e. fst (registerResource env reg gq) (resp_urn g) = Some e \<and> urn e = resp_urn g
         \<and> (\<forall>req inputs.
               getTok req = ''pulumi:pulumi:getResource''
             \<and> deserializeProperties env (getArgs req) = Inr inputs
             \<and> inputs_urn inputs = (Inr (JStr (resp_urn g)) :: 'x error + jsvalue)
             \<longrightarrow> invoke env (fst (registerResource env reg gq)) req
                   = (fst (registerResource env reg gq), getResource_response env e)
               \<and> (\<forall>k. snd (invoke env (fst (registerResource env reg gq)) req)
                         \<noteq> Inl (UnknownResource k))
               \<and> (\<forall>w. fromJavaScript env (js_of_registered e) = Inr w
                    \<longrightarrow> snd (invoke env (fst (registerResource env reg gq)) req)
                          = Inr \<lparr>resp_return = w\<rparr>))))"
  (is "?read_stores \<and> ?register_stores \<and> ?read_found \<and> ?register_found")
proof -
  have read_stores: ?read_stores
    using readResource_run [of env rq inputs result st w reg] by (auto simp: Let_def)
  have register_stores: ?register_stores
    using registerResource_run [of env gq inputs' result' st' w' reg] by (auto simp: Let_def)
  have read_found: ?read_found
  proof
    assume "snd (readResource env reg rq) = Inr r"
    from readResource_success [OF this]
    obtain result :: mock_result and st where
      c: "fst (readResource env reg rq) =
            reg(resp_urn r \<mapsto> \<lparr>urn = resp_urn r, id' = result_id result, state = st\<rparr>)"
      by blast
    show "\<exists>e. fst (readResource env reg rq) (resp_urn r) = Some e \<and> urn e = resp_urn r
         \<and> (\<forall>req inputs.
               getTok req = ''pulumi:pulumi:getResource''
             \<and> deserializeProperties env (getArgs req) = Inr inputs
             \<and> inputs_urn inputs = (Inr (JStr (resp_urn r)) :: 'x error + jsvalue)
             \<longrightarrow> invoke env (fst (readResource env reg rq)) req
                   = (fst (readResource env reg rq), getResource_response env e)
               \<and> (\<forall>k. snd (invoke env (fst (readResource env reg rq)) req)
                         \<noteq> Inl (UnknownResource k))
               \<and> (\<forall>w. fromJavaScript env (js_of_registered e) = Inr w
                    \<longrightarrow> snd (invoke env (fst (readResource env reg rq)) req)
                          = Inr \<lparr>resp_return = w\<rparr>))"
      unfolding c
      by (rule exI [of _ "\<lparr>urn = resp_urn r, id' = result_id result, state = st\<rparr>"])
         (simp add: invoke_after_commit getResource_response_known,
          simp add: getResource_response_def)
  qed
  have register_found: ?register_found
  proof
    assume "snd (registerResource env reg gq) = Inr g"
    from registerResource_success [OF this]
    obtain result :: mock_result and st where
      c: "fst (registerResource env reg gq) =
            reg(resp_urn g \<mapsto> \<lparr>urn = resp_urn g, id' = result_id result, state = st\<rparr>)"
      by blast
    show "\<exists>e. fst (registerResource env reg gq) (resp_urn g) = Some e \<and> urn e = resp_urn g
         \<and> (\<forall>req inputs.
               getTok req = ''pulumi:pulumi:getResource''
             \<and> deserializeProperties env (getArgs req) = Inr inputs
             \<and> inputs_urn inputs = (Inr (JStr (resp_urn g)) :: 'x error + jsvalue)
             \<longrightarrow> invoke env (fst (registerResource env reg gq)) req
                   = (fst (registerResource env reg gq), getResource_response env e)
               \<and> (\<forall>k. snd (invoke env (fst (registerResource env reg gq)) req)
                         \<noteq> Inl (UnknownResource k))
               \<and> (\<forall>w. fromJavaScript env (js_of_registered e) = Inr w
                    \<longrightarrow> snd (invoke env (fst (registerResource env reg gq)) req)
                          = Inr \<lparr>resp_return = w\<rparr>))"
      unfolding c
      by (rule exI [of _ "\<lparr>urn = resp_urn g, id' = result_id result, state = st\<rparr>"])
         (simp add: invoke_after_commit getResource_response_known,
          simp add: getResource_response_def)
  qed
  from read_stores register_stores read_found register_found show ?thesis
    by (intro conjI)
qed

theorem registered_resource_is_found_witness:
  "deserializeProperties example_env (getProperties object_request) = Inr (JObj [])
   \<and> newResource example_env (getType object_request) (getName object_request) (JObj [])
         (getProvider object_request) (getId object_request) (getCustom object_request)
       = Inr \<lparr>result_id = Some ''bucket-1'', result_state = bucket_state\<rparr>
   \<and> \<not> malformed_parent (getParent object_request)
   \<and> serializeProperties example_env
         (result_state \<lparr>result_id = Some ''bucket-1'', result_state = bucket_state\<rparr>)
       = Inr bucket_state
   \<and> fromJavaScript example_env bucket_state = Inr bucket_state
   \<and> (\<exists>r. snd (readResource example_env bucket_registry object_request) = Inr r
        \<and> fst (readResource example_env bucket_registry object_request) (resp_urn r)
            = Some \<lparr>urn = resp_urn r, id' = Some ''bucket-1'', state = bucket_state\<rparr>
        \<and> snd (invoke example_env (fst (readResource example_env bucket_registry object_request))
                 (getResource_request (resp_urn r)))
            = Inr \<lparr>resp_return = JObj [(''urn'', JStr (resp_urn r)), (''id'', JStr ''bucket-1''),
                                       (''state'', bucket_state)]\<rparr>)
   \<and> snd (registerResource example_env Map.empty bucket_request)
       = Inr \<lparr>resp_urn = bucket_urn, resp_id = Some ''bucket-1'', resp_object = bucket_state\<rparr>
   \<and> (\<exists>e. fst (registerResource example_env Map.empty bucket_request) bucket_urn = Some e
        \<and> snd (invoke example_env (fst (registerResource example_env Map.empty bucket_request))
                 (getResource_request bucket_urn))
            = Inr \<lparr>resp_return = js_of_registered e\<rparr>)"
proof -
  let ?result = "\<lparr>result_id = Some ''bucket-1'', result_state = bucket_state\<rparr>"
  let ?g = "\<lparr>resp_urn = bucket_urn, resp_id = Some ''bucket-1'', resp_object = bucket_state\<rparr>"
  let ?reg = "fst (registerResource example_env Map.empty bucket_request)"
  let ?reg' = "fst (readResource example_env bucket_registry object_request)"
  note steps = example_object_steps
  have parent: "\<not> malformed_parent (getParent object_request)"
    using example_object_parent by blast
  have q: "getTok (getResource_request u) = ''pulumi:pulumi:getResource''
        \<and> deserializeProperties example_env (getArgs (getResource_request u))
            = Inr (JObj [(''urn'', JStr u)])
        \<and> inputs_urn (JObj [(''urn'', JStr u)]) = (Inr (JStr u) :: string error + jsvalue)" for u
    by (simp add: getResource_request_def example_env_def inputs_urn_def)
  have f: "fromJavaScript example_env (js_of_registered e) = Inr (js_of_registered e)" for e
    by (simp add: example_env_def)
  note t = registered_resource_is_found [where env = example_env]
  \<comment> \<open>\<^verbatim>\<open>readResource\<close>: the call succeeds, stores its entry, and the entry is found\<close>
  from t [where reg = bucket_registry and rq = object_request and inputs = "JObj []"
      and result = ?result and st = bucket_state and w = bucket_state, THEN conjunct1]
    steps parent
  obtain r where r: "snd (readResource example_env bucket_registry object_request) = Inr r"
    and s: "?reg' (resp_urn r)
              = Some \<lparr>urn = resp_urn r, id' = Some ''bucket-1'', state = bucket_state\<rparr>"
    by auto
  from t [where reg = bucket_registry and rq = object_request and r = r,
      THEN conjunct2, THEN conjunct2, THEN conjunct1, rule_format, OF r]
  obtain e where e: "?reg' (resp_urn r) = Some e"
    and i: "\<forall>req inputs.
               getTok req = ''pulumi:pulumi:getResource''
             \<and> deserializeProperties example_env (getArgs req) = Inr inputs
             \<and> inputs_urn inputs = (Inr (JStr (resp_urn r)) :: string error + jsvalue)
             \<longrightarrow> (\<forall>w. fromJavaScript example_env (js_of_registered e) = Inr w
                    \<longrightarrow> snd (invoke example_env ?reg' req) = Inr \<lparr>resp_return = w\<rparr>)"
    by blast
  from i q [of "resp_urn r"] f [of e]
  have "snd (invoke example_env ?reg' (getResource_request (resp_urn r)))
          = Inr \<lparr>resp_return = js_of_registered e\<rparr>"
    by blast
  moreover from e s
  have "e = \<lparr>urn = resp_urn r, id' = Some ''bucket-1'', state = bucket_state\<rparr>"
    by simp
  ultimately
  have a: "snd (invoke example_env ?reg' (getResource_request (resp_urn r)))
            = Inr \<lparr>resp_return = JObj [(''urn'', JStr (resp_urn r)), (''id'', JStr ''bucket-1''),
                                       (''state'', bucket_state)]\<rparr>"
    by (simp add: js_of_registered_def)
  \<comment> \<open>\<^verbatim>\<open>registerResource\<close>\<close>
  have h: "snd (registerResource example_env Map.empty bucket_request) = Inr ?g"
    by (simp add: example_register)
  from t [where reg = Map.empty and gq = bucket_request and g = ?g,
      THEN conjunct2, THEN conjunct2, THEN conjunct2, rule_format, OF h]
  obtain e' where e': "?reg (resp_urn ?g) = Some e'"
    and i': "\<forall>req inputs.
               getTok req = ''pulumi:pulumi:getResource''
             \<and> deserializeProperties example_env (getArgs req) = Inr inputs
             \<and> inputs_urn inputs = (Inr (JStr (resp_urn ?g)) :: string error + jsvalue)
             \<longrightarrow> (\<forall>w. fromJavaScript example_env (js_of_registered e') = Inr w
                    \<longrightarrow> snd (invoke example_env ?reg req) = Inr \<lparr>resp_return = w\<rparr>)"
    by blast
  from i' q [of bucket_urn] f [of e']
  have b: "snd (invoke example_env ?reg (getResource_request bucket_urn))
          = Inr \<lparr>resp_return = js_of_registered e'\<rparr>"
    by simp
  from r s a have "\<exists>r. snd (readResource example_env bucket_registry object_request) = Inr r
        \<and> ?reg' (resp_urn r)
            = Some \<lparr>urn = resp_urn r, id' = Some ''bucket-1'', state = bucket_state\<rparr>
        \<and> snd (invoke example_env ?reg' (getResource_request (resp_urn r)))
            = Inr \<lparr>resp_return = JObj [(''urn'', JStr (resp_urn r)), (''id'', JStr ''bucket-1''),
                                       (''state'', bucket_state)]\<rparr>"
    by blast
  moreover from e' b
  have "\<exists>e. ?reg bucket_urn = Some e
        \<and> snd (invoke example_env ?reg (getResource_request bucket_urn))
            = Inr \<lparr>resp_return = js_of_registered e\<rparr>"
    by simp
  ultimately show ?thesis
    using steps parent h by simp
qed

text \<open>
  Claim C4. For a registered name, \<^verbatim>\<open>registerResourceOutputs\<close> succeeds and stores the outputs
  of the request as the state, untouched. A second call for the same name leaves exactly
  what a single call with the second payload leaves: nothing of the first payload remains.
\<close>

theorem registerResourceOutputs_replaces_state:
  assumes "reg n = Some e"
  shows "registerResourceOutputs reg \<lparr>getUrn = n, getOutputs = out1\<rparr>
           = (reg(n \<mapsto> e\<lparr>state := out1\<rparr>), (Inr () :: 'x error + unit))
       \<and> registerResourceOutputs (reg(n \<mapsto> e\<lparr>state := out1\<rparr>))
             \<lparr>getUrn = n, getOutputs = out2\<rparr>
           = (reg(n \<mapsto> e\<lparr>state := out2\<rparr>), (Inr () :: 'x error + unit))
       \<and> fst (registerResourceOutputs
                (fst (registerResourceOutputs reg \<lparr>getUrn = n, getOutputs = out1\<rparr>
                        :: registry \<times> ('x error + unit)))
                \<lparr>getUrn = n, getOutputs = out2\<rparr> :: registry \<times> ('x error + unit))
           = fst (registerResourceOutputs reg \<lparr>getUrn = n, getOutputs = out2\<rparr>
                    :: registry \<times> ('x error + unit))
       \<and> map_option state
            (fst (registerResourceOutputs
                (fst (registerResourceOutputs reg \<lparr>getUrn = n, getOutputs = out1\<rparr>
                        :: registry \<times> ('x error + unit)))
                \<lparr>getUrn = n, getOutputs = out2\<rparr> :: registry \<times> ('x error + unit)) n)
           = Some out2"
  using assms by (simp add: registerResourceOutputs_def)

theorem registerResourceOutputs_replaces_state_witness:
  "bucket_registry bucket_urn
     = Some \<lparr>urn = bucket_urn, id' = Some ''bucket-1'', state = bucket_state\<rparr>
   \<and> map_option state
        (fst (registerResourceOutputs
            (fst (registerResourceOutputs bucket_registry
                    \<lparr>getUrn = bucket_urn, getOutputs = JObj [(''a'', JStr ''1'')]\<rparr>
                  :: registry \<times> (string error + unit)))
            \<lparr>getUrn = bucket_urn, getOutputs = JObj [(''b'', JStr ''2'')]\<rparr>
           :: registry \<times> (string error + unit)) bucket_urn)
       = Some (JObj [(''b'', JStr ''2'')])"
proof -
  have h: "bucket_registry bucket_urn
     = Some \<lparr>urn = bucket_urn, id' = Some ''bucket-1'', state = bucket_state\<rparr>"
    by (simp add: bucket_registry_def)
  show ?thesis
    using h registerResourceOutputs_replaces_state
      [where reg = bucket_registry and n = bucket_urn
        and e = "\<lparr>urn = bucket_urn, id' = Some ''bucket-1'', state = bucket_state\<rparr>"
        and ?out1.0 = "JObj [(''a'', JStr ''1'')]" and ?out2.0 = "JObj [(''b'', JStr ''2'')]"
        and 'x = string]
    by blast
qed

text \<open>
  Claim C7. A successful \<^verbatim>\<open>registerResourceOutputs\<close> changes the \<^verbatim>\<open>state\<close> field of the entry
  under the name of the request and nothing else: the entry keeps its \<^verbatim>\<open>urn\<close> and \<^verbatim>\<open>id\<close>, every
  other name keeps its entry, and no name is added or removed.
\<close>

theorem registerResourceOutputs_frame:
  assumes "registerResourceOutputs reg oq = (reg', (Inr () :: 'x error + unit))"
  shows "(\<exists>e e'. reg (getUrn oq) = Some e \<and> reg' (getUrn oq) = Some e'
            \<and> urn e' = urn e \<and> id' e' = id' e \<and> state e' = getOutputs oq)
       \<and> (\<forall>m. m \<noteq> getUrn oq \<longrightarrow> reg' m = reg m)
       \<and> dom reg' = dom reg"
  using assms by (auto simp: registerResourceOutputs_def split: option.splits if_splits)

theorem registerResourceOutputs_frame_witness:
  "registerResourceOutputs bucket_registry \<lparr>getUrn = bucket_urn, getOutputs = JNull\<rparr>
     = (bucket_registry(bucket_urn \<mapsto>
          \<lparr>urn = bucket_urn, id' = Some ''bucket-1'', state = JNull\<rparr>),
        (Inr () :: string error + unit))
   \<and> dom (bucket_registry(bucket_urn \<mapsto>
          \<lparr>urn = bucket_urn, id' = Some ''bucket-1'', state = JNull\<rparr>)) = dom bucket_registry"
proof -
  have h: "registerResourceOutputs bucket_registry \<lparr>getUrn = bucket_urn, getOutputs = JNull\<rparr>
     = (bucket_registry(bucket_urn \<mapsto>
          \<lparr>urn = bucket_urn, id' = Some ''bucket-1'', state = JNull\<rparr>),
        (Inr () :: string error + unit))"
    by (simp add: registerResourceOutputs_def bucket_registry_def)
  show ?thesis
    using h registerResourceOutputs_frame [OF h] by blast
qed

end
